theory Spec2Isabelle
  imports Main "HOL-Library.Word"
begin

section \<open>JavaScript strings\<close>

text \<open>
  A JavaScript string is a sequence of 16-bit code units. String literals of the source
  are written \<open>js ''...''\<close>; a template literal is the concatenation of its pieces.
\<close>

type_synonym code_unit = "16 word"
type_synonym jsstring = "code_unit list"

definition js :: "string \<Rightarrow> jsstring" where
  "js = map of_char"

text \<open>
  \<open>String.prototype.trim\<close> removes leading and trailing WhiteSpace and LineTerminator
  code points (ECMAScript 2015 and later); all of them are single code units.
\<close>

definition isWhiteSpace :: "code_unit \<Rightarrow> bool" where
  "isWhiteSpace c = (c \<in> set [0x09, 0x0A, 0x0B, 0x0C, 0x0D, 0x20, 0xA0, 0x1680,
      0x2000, 0x2001, 0x2002, 0x2003, 0x2004, 0x2005, 0x2006, 0x2007, 0x2008, 0x2009, 0x200A,
      0x2028, 0x2029, 0x202F, 0x205F, 0x3000, 0xFEFF])"

definition trim :: "jsstring \<Rightarrow> jsstring" where
  "trim s = rev (dropWhile isWhiteSpace (rev (dropWhile isWhiteSpace s)))"

text \<open>\<open>Array.prototype.join\<close> on an array of strings.\<close>

fun join :: "jsstring \<Rightarrow> jsstring list \<Rightarrow> jsstring" where
  "join sep [] = []"
| "join sep [x] = x"
| "join sep (x # y # ys) = x @ sep @ join sep (y # ys)"

section \<open>Data model\<close>

text \<open>The shape requested by \<open>responseSchema\<close> (index.tsx, lines 45-93).\<close>

record clause =
  clause_number :: int
  original_text :: "jsstring option"
  simplified_text :: jsstring
  risk_level :: jsstring
  risk_description :: jsstring

record critical_clause =
  critical_clause_number :: int
  reason :: jsstring

record risk_assessment =
  overall :: jsstring
  explanation :: jsstring

record analysis_result =
  title :: jsstring
  contract_type :: jsstring
  summary :: jsstring
  clauses :: "clause list"
  critical_clauses :: "critical_clause list"
  risk_levels :: risk_assessment
  sentiment :: "jsstring option"
  intent :: "jsstring option"
  key_points :: "jsstring list"
  audio_friendly_summary :: jsstring

datatype role = User | Model

text \<open>
  The \<open>Chat\<close> object returned by \<open>ai.chats.create\<close>, as the arguments it was created
  from: the model name, the seed history (each turn a role and its text parts) and the
  system instruction.
\<close>

record chat_session =
  chat_model :: jsstring
  history :: "(role \<times> jsstring list) list"
  chat_systemInstruction :: jsstring

record form_fields =
  documentContent :: jsstring
  userRole :: jsstring
  audienceType :: jsstring
  explanationLevel :: jsstring
  explanationTone :: jsstring

text \<open>The global \<open>state\<close> object (index.tsx, lines 16-34); \<open>null\<close> is \<open>None\<close>.\<close>

record state =
  isLoading :: bool
  analysis :: "analysis_result option"
  error :: "jsstring option"
  activeClause :: "int option"
  form :: form_fields
  chat :: "chat_session option"
  chatHistory :: "(role \<times> jsstring) list"
  isChatLoading :: bool
  chatError :: "jsstring option"
  currentQuestion :: jsstring

section \<open>Environment\<close>

text \<open>
  A value that is thrown, or that a promise rejects with, as the \<open>catch\<close> blocks see it:
  they only read its \<open>message\<close>. The value carries a message, or it is a value without
  one (the property reads \<open>undefined\<close>), or it is \<open>null\<close> or \<open>undefined\<close> itself, on
  which reading the property throws a TypeError.
\<close>

datatype thrown = Thrown_with_message jsstring | Thrown_without_message | Thrown_nullish

text \<open>
  What the page relies on and the source does not define: whether \<open>new GoogleGenAI\<close>
  succeeded at load time (the variable \<open>ai\<close>, index.tsx, lines 37-43), the result of
  \<open>JSON.parse\<close> on a text (\<open>Inl\<close> the message of the SyntaxError it throws, \<open>Inr\<close> the
  parsed object; the response schema asks for an object), the message of the
  TypeError the engine throws for \<open>undefined.trim()\<close>, and whether \<open>ai.chats.create\<close>,
  called with a prompt and a response text, throws (\<open>Some\<close> the value thrown) or
  returns the session (\<open>None\<close>).
\<close>

record js_env =
  ai :: bool
  JSON_parse :: "jsstring \<Rightarrow> jsstring + analysis_result"
  undefined_trim_message :: jsstring
  chats_create_throws :: "jsstring \<Rightarrow> jsstring \<Rightarrow> thrown option"

definition initial_state :: "js_env \<Rightarrow> state" where
  "initial_state E =
     \<lparr>isLoading = False,
      analysis = None,
      error = (if ai E then None
               else Some (js ''Failed to initialize the Gemini API. Please ensure the API key is set correctly.'')),
      activeClause = None,
      form = \<lparr>documentContent = [], userRole = js ''Tenant'', audienceType = js ''Layman'',
               explanationLevel = js ''Layman'', explanationTone = js ''Casual''\<rparr>,
      chat = None,
      chatHistory = [],
      isChatLoading = False,
      chatError = None,
      currentQuestion = []\<rparr>"

section \<open>analyzeDocument\<close>

definition systemInstruction :: jsstring where
  \<open>systemInstruction =
     js ''You are an expert legal document simplification assistant & risk analyst.\<newline>''
     @ js ''Your responsibilities:\<newline>''
     @ js '' - First, perform a complete analysis of the provided document based on the user''
     @ [0x27]
     @ js ''s context and return it as a single, valid JSON object that conforms to the provided schema. Do not add any other commentary.\<newline>''
     @ js '' - After the initial analysis, you will act as a helpful assistant, answering follow-up questions about the document you just analyzed.''\<close>

definition userPrompt :: "form_fields \<Rightarrow> jsstring" where
  \<open>userPrompt f =
     js ''Document content:\<newline>"""\<newline>'' @ documentContent f @ js ''\<newline>"""\<newline>\<newline>''
     @ js ''Additional context:\<newline>''
     @ js '' - User role: '' @ userRole f @ js ''\<newline>''
     @ js '' - Desired summary audience/type: '' @ audienceType f @ js ''\<newline>''
     @ js '' - Explanation complexity level: '' @ explanationLevel f @ js ''\<newline>''
     @ js '' - Explanation tone: '' @ explanationTone f @ js ''\<newline>''
     @ js '' - Required output format: JSON\<newline>''\<close>

text \<open>The argument of \<open>ai.models.generateContent\<close> (the schema itself is left out).\<close>

record generate_request =
  request_model :: jsstring
  contents :: jsstring
  request_systemInstruction :: jsstring
  responseMimeType :: jsstring

text \<open>
  How the awaited \<open>generateContent\<close> call settles: the promise rejects with a value, or
  resolves with a response whose \<open>text\<close> is a string or \<open>undefined\<close>.
\<close>

datatype generate_outcome = Rejected thrown | Resolved "jsstring option"

text \<open>
  The first segment of \<open>analyzeDocument\<close>, up to the \<open>await\<close> (index.tsx, lines 96-141).
  It returns the state it leaves and the request it issues, if any.
\<close>

definition analyzeDocument_start :: "js_env \<Rightarrow> state \<Rightarrow> state \<times> generate_request option" where
  "analyzeDocument_start E s =
     (if \<not> ai E then (s, None)
      else if trim (documentContent (form s)) = [] then
        (s\<lparr>error := Some (js ''Please paste or upload a document to analyze.'')\<rparr>, None)
      else
        (s\<lparr>isLoading := True, analysis := None, error := None, chat := None, chatHistory := []\<rparr>,
         Some \<lparr>request_model = js ''gemini-2.5-flash'',
               contents = userPrompt (form s),
               request_systemInstruction = systemInstruction,
               responseMimeType = js ''application/json''\<rparr>))"

text \<open>
  The statements of the \<open>try\<close> block that write no state (index.tsx, lines 133-144):
  the awaited call, \<open>response.text.trim()\<close> and \<open>JSON.parse(jsonText)\<close>. \<open>Inl\<close> is the
  value thrown, \<open>Inr\<close> the trimmed text and the parsed object.
\<close>

definition response_json :: "js_env \<Rightarrow> generate_outcome \<Rightarrow> thrown + jsstring \<times> analysis_result" where
  "response_json E outcome =
     (case outcome of
        Rejected e \<Rightarrow> Inl e
      | Resolved None \<Rightarrow> Inl (Thrown_with_message (undefined_trim_message E))
      | Resolved (Some text) \<Rightarrow>
          (let jsonText = trim text in
           case JSON_parse E jsonText of
             Inl msg \<Rightarrow> Inl (Thrown_with_message msg)
           | Inr parsed \<Rightarrow> Inr (jsonText, parsed)))"

text \<open>
  The session \<open>ai.chats.create\<close> returns for the arguments of index.tsx, lines 147-156,
  when it returns.
\<close>

definition chats_create :: "jsstring \<Rightarrow> jsstring \<Rightarrow> chat_session" where
  \<open>chats_create prompt jsonText =
     \<lparr>chat_model = js ''gemini-2.5-flash'',
      history =
        [(User, [prompt]),
         (Model, [js ''I have analyzed the document. Here is the summary in JSON format as requested:\<newline>''
                  @ jsonText])],
      chat_systemInstruction =
        js ''You are a helpful assistant answering questions about a legal document you have already analyzed. Be concise and refer to specific clauses when possible.''\<rparr>\<close>

text \<open>
  The \<open>catch\<close> block (index.tsx, lines 158-160). The template literal renders a missing
  message as \<open>undefined\<close>. On \<open>null\<close> or \<open>undefined\<close> reading \<open>error.message\<close> throws,
  so the assignment to \<open>state.error\<close> is not reached.
\<close>

definition analyzeDocument_catch :: "thrown \<Rightarrow> state \<Rightarrow> state" where
  "analyzeDocument_catch e s =
     (case e of
        Thrown_with_message msg \<Rightarrow>
          s\<lparr>error := Some (js ''An error occurred during analysis: '' @ msg @ js ''. Please try again.'')\<rparr>
      | Thrown_without_message \<Rightarrow>
          s\<lparr>error := Some (js ''An error occurred during analysis: '' @ js ''undefined''
                            @ js ''. Please try again.'')\<rparr>
      | Thrown_nullish \<Rightarrow> s)"

text \<open>
  The continuation of \<open>analyzeDocument\<close> after the \<open>await\<close> (index.tsx, lines 143-164):
  the rest of the \<open>try\<close> block, the \<open>catch\<close> and the \<open>finally\<close>. The prompt is the local
  \<open>userPrompt\<close> the first segment built. \<open>state.analysis\<close> is assigned at line 144, before
  \<open>ai.chats.create\<close> is called at line 147: when that call throws, the \<open>catch\<close> block
  runs on a state that already holds the parsed analysis. The \<open>finally\<close> block runs on
  every path.
\<close>

definition analyzeDocument_resume :: "js_env \<Rightarrow> jsstring \<Rightarrow> generate_outcome \<Rightarrow> state \<Rightarrow> state" where
  "analyzeDocument_resume E prompt outcome s =
     (case response_json E outcome of
        Inr (jsonText, parsed) \<Rightarrow>
          (case chats_create_throws E prompt jsonText of
             None \<Rightarrow>
               s\<lparr>analysis := Some parsed, chat := Some (chats_create prompt jsonText),
                 isLoading := False\<rparr>
           | Some e \<Rightarrow> (analyzeDocument_catch e (s\<lparr>analysis := Some parsed\<rparr>))\<lparr>isLoading := False\<rparr>)
      | Inl e \<Rightarrow> (analyzeDocument_catch e s)\<lparr>isLoading := False\<rparr>)"

text \<open>One call of \<open>analyzeDocument\<close> with no other handler running during the \<open>await\<close>.\<close>

definition analyzeDocument :: "js_env \<Rightarrow> generate_outcome \<Rightarrow> state \<Rightarrow> state" where
  "analyzeDocument E outcome s =
     (case analyzeDocument_start E s of
        (s', None) \<Rightarrow> s'
      | (s', Some request) \<Rightarrow> analyzeDocument_resume E (contents request) outcome s')"

section \<open>askFollowUpQuestion\<close>

text \<open>
  How the awaited \<open>state.chat.sendMessage\<close> settles; a rejection is given by the
  message of the error it carries.
\<close>

datatype send_outcome = SendRejected jsstring | SendResolved jsstring

text \<open>
  The first segment (index.tsx, lines 168-187), returning the message it sends, if any.
\<close>

definition askFollowUpQuestion_start :: "state \<Rightarrow> state \<times> jsstring option" where
  "askFollowUpQuestion_start s =
     (if chat s = None \<or> trim (currentQuestion s) = [] \<or> isChatLoading s then (s, None)
      else
        (let question = trim (currentQuestion s) in
         (s\<lparr>isChatLoading := True, chatError := None,
            chatHistory := chatHistory s @ [(User, question)], currentQuestion := []\<rparr>,
          Some question)))"

text \<open>The continuation (index.tsx, lines 188-196).\<close>

definition askFollowUpQuestion_resume :: "send_outcome \<Rightarrow> state \<Rightarrow> state" where
  "askFollowUpQuestion_resume outcome s =
     (case outcome of
        SendResolved answer \<Rightarrow>
          s\<lparr>chatHistory := chatHistory s @ [(Model, answer)], isChatLoading := False\<rparr>
      | SendRejected msg \<Rightarrow>
          s\<lparr>chatError := Some (js ''Sorry, an error occurred: '' @ msg), isChatLoading := False\<rparr>)"

definition askFollowUpQuestion :: "send_outcome \<Rightarrow> state \<Rightarrow> state" where
  "askFollowUpQuestion outcome s =
     (case askFollowUpQuestion_start s of
        (s', None) \<Rightarrow> s'
      | (s', Some question) \<Rightarrow> askFollowUpQuestion_resume outcome s')"

section \<open>handleFileUpload\<close>

text \<open>
  An item of a page's text content either has a \<open>str\<close> property or is marked content
  without one. A page is the items \<open>getPage(i)\<close> and \<open>getTextContent()\<close> deliver, or
  the message of the error one of them rejects with.
\<close>

datatype text_item = TextItem jsstring | TextMarkedContent

type_synonym page = "jsstring + text_item list"

text \<open>
  A chosen file: its name, its media type, what \<open>file.arrayBuffer()\<close> followed by
  \<open>pdfjsLib.getDocument\<close> gives (the pages 1..numPages, or an error message) and
  what \<open>file.text()\<close> gives.
\<close>

record chosen_file =
  file_name :: jsstring
  file_type :: jsstring
  pdf_document :: "jsstring + page list"
  file_text :: "jsstring + jsstring"

definition item_str :: "text_item \<Rightarrow> jsstring" where
  "item_str item = (case item of TextItem str \<Rightarrow> str | TextMarkedContent \<Rightarrow> [])"

text \<open>The loop over the pages (index.tsx, lines 484-489), with \<open>pageTexts\<close> as accumulator.\<close>

fun extract_pages :: "page list \<Rightarrow> jsstring list \<Rightarrow> jsstring + jsstring list" where
  "extract_pages [] pageTexts = Inr pageTexts"
| "extract_pages (Inl msg # pages) pageTexts = Inl msg"
| "extract_pages (Inr items # pages) pageTexts =
     extract_pages pages (pageTexts @ [join (js '' '') (map item_str items)])"

text \<open>The computation of \<open>textContent\<close> in the \<open>try\<close> block (index.tsx, lines 479-495).\<close>

definition read_file :: "chosen_file \<Rightarrow> jsstring + jsstring" where
  "read_file f =
     (if file_type f = js ''application/pdf'' then
        (case pdf_document f of
           Inl msg \<Rightarrow> Inl msg
         | Inr pages \<Rightarrow>
             (case extract_pages pages [] of
                Inl msg \<Rightarrow> Inl msg
              | Inr pageTexts \<Rightarrow> Inr (join (js ''\<newline>\<newline>'') pageTexts)))
      else if file_type f = js ''text/plain'' then file_text f
      else Inl (js ''Unsupported file type. Please upload a .txt or .pdf file.''))"

text \<open>
  The continuation after the last \<open>await\<close>: the assignment of the text, the \<open>catch\<close> and
  the \<open>finally\<close> (index.tsx, lines 496-505).
\<close>

definition handleFileUpload_resume :: "chosen_file \<Rightarrow> state \<Rightarrow> state" where
  "handleFileUpload_resume f s =
     (case read_file f of
        Inr textContent \<Rightarrow>
          s\<lparr>form := (form s)\<lparr>documentContent := textContent\<rparr>, isLoading := False\<rparr>
      | Inl msg \<Rightarrow>
          s\<lparr>error := Some (js ''Failed to process the uploaded file: '' @ msg), isLoading := False\<rparr>)"

text \<open>
  The first segment (index.tsx, lines 460-482 and 491-494). With no file it returns at
  once. A file of an unsupported type throws before any \<open>await\<close>, so the whole handler
  runs in this segment; otherwise the file is left pending. The file name display is a
  DOM node outside \<open>state\<close> and is left out.
\<close>

definition handleFileUpload_start :: "chosen_file option \<Rightarrow> state \<Rightarrow> state \<times> chosen_file option" where
  "handleFileUpload_start chosen s =
     (case chosen of
        None \<Rightarrow> (s, None)
      | Some f \<Rightarrow>
          (let s' = s\<lparr>isLoading := True, error := None,
                       form := (form s)\<lparr>documentContent := []\<rparr>, analysis := None\<rparr>
           in if file_type f = js ''application/pdf'' \<or> file_type f = js ''text/plain''
              then (s', Some f)
              else (handleFileUpload_resume f s', None)))"

definition handleFileUpload :: "chosen_file option \<Rightarrow> state \<Rightarrow> state" where
  "handleFileUpload chosen s =
     (case handleFileUpload_start chosen s of
        (s', None) \<Rightarrow> s'
      | (s', Some f) \<Rightarrow> handleFileUpload_resume f s')"

section \<open>toggleClause\<close>

text \<open>
  \<open>state.activeClause = state.activeClause === clauseNumber ? null : clauseNumber\<close>
  (index.tsx, lines 508-511).
\<close>

definition toggleClause :: "int \<Rightarrow> state \<Rightarrow> state" where
  "toggleClause clauseNumber s =
     s\<lparr>activeClause := (if activeClause s = Some clauseNumber then None else Some clauseNumber)\<rparr>"

section \<open>Rendering\<close>

text \<open>
  The part of the rendered page the properties below speak about. A JavaScript string is
  truthy when it is neither \<open>null\<close> nor empty.
\<close>

definition truthy :: "jsstring option \<Rightarrow> jsstring option" where
  "truthy v = (case v of None \<Rightarrow> None | Some x \<Rightarrow> if x = [] then None else Some x)"

record chat_panel =
  shown_messages :: "(role \<times> jsstring) list"
  typing_indicator :: bool
  shown_chat_error :: "jsstring option"
  input_value :: jsstring
  input_disabled :: bool
  send_disabled :: bool

text \<open>\<open>renderChat\<close> (index.tsx, lines 229-280); \<open>None\<close> is the empty string it returns.\<close>

definition renderChat :: "state \<Rightarrow> chat_panel option" where
  "renderChat s =
     (if chat s = None then None
      else Some \<lparr>shown_messages = chatHistory s,
                 typing_indicator = isChatLoading s,
                 shown_chat_error = truthy (chatError s),
                 input_value = currentQuestion s,
                 input_disabled = isChatLoading s,
                 send_disabled = (trim (currentQuestion s) = [] \<or> isChatLoading s)\<rparr>)"

datatype output_panel =
    LoadingView
  | ErrorView jsstring
  | PlaceholderView
  | AnalysisView analysis_result "chat_panel option"

text \<open>\<open>renderAnalysis\<close> (index.tsx, lines 282-377): which content the output panel shows.\<close>

definition renderAnalysis :: "state \<Rightarrow> output_panel" where
  "renderAnalysis s =
     (if isLoading s then LoadingView
      else case truthy (error s) of
        Some msg \<Rightarrow> ErrorView msg
      | None \<Rightarrow>
          (case analysis s of
             None \<Rightarrow> PlaceholderView
           | Some a \<Rightarrow> AnalysisView a (renderChat s)))"

text \<open>
  An accordion item is expanded when \<open>state.activeClause === clause.clause_number\<close>
  (index.tsx, lines 355 and 360).
\<close>

definition expanded :: "state \<Rightarrow> clause \<Rightarrow> bool" where
  "expanded s c = (activeClause s = Some (clause_number c))"

text \<open>
  The active clause, when set, is the \<open>clause_number\<close> of a clause of the current
  analysis.
\<close>

definition active_clause_valid :: "state \<Rightarrow> bool" where
  "active_clause_valid s =
     (case activeClause s of
        None \<Rightarrow> True
      | Some n \<Rightarrow>
          (case analysis s of
             None \<Rightarrow> False
           | Some a \<Rightarrow> n \<in> set (map clause_number (clauses a))))"

section \<open>The page as a transition system\<close>

text \<open>
  All handlers run on one thread, so the page is a sequence of handler segments. A
  configuration is the state together with the calls that are suspended at an \<open>await\<close>:
  the prompts of the pending \<open>generateContent\<close> calls, the messages of the pending
  \<open>sendMessage\<close> calls and the files being read.
\<close>

record config =
  app :: state
  analyses_in_flight :: "jsstring list"
  questions_in_flight :: "jsstring list"
  uploads_in_flight :: "chosen_file list"

text \<open>
  The events: the \<open>@input\<close> and \<open>@change\<close> handlers of the form fields and of the chat
  input (index.tsx, lines 412-441 and 265-268), the two submit handlers, the file input,
  a click on an accordion header, and the settling of a pending call.
\<close>

datatype event =
    EditDocumentContent jsstring
  | EditUserRole jsstring
  | EditAudienceType jsstring
  | EditExplanationLevel jsstring
  | EditExplanationTone jsstring
  | EditCurrentQuestion jsstring
  | SubmitAnalysis
  | AnalysisSettles nat generate_outcome
  | SubmitQuestion
  | QuestionSettles nat send_outcome
  | FileChosen "chosen_file option"
  | FileRead nat
  | ClauseClicked int

definition drop_nth :: "nat \<Rightarrow> 'a list \<Rightarrow> 'a list" where
  "drop_nth i xs = take i xs @ drop (Suc i) xs"

text \<open>
  The accordion headers on the page: \<open>toggleClause\<close> is only ever called with the
  \<open>clause_number\<close> of a rendered clause (index.tsx, line 354).
\<close>

definition rendered_clause_numbers :: "state \<Rightarrow> int list" where
  "rendered_clause_numbers s =
     (case renderAnalysis s of
        AnalysisView a panel \<Rightarrow> map clause_number (clauses a)
      | LoadingView \<Rightarrow> []
      | ErrorView msg \<Rightarrow> []
      | PlaceholderView \<Rightarrow> [])"

text \<open>
  One event. \<open>None\<close> means the event cannot happen: no such pending call, or no such
  accordion header. The form and chat handlers are allowed in every state, which is more
  than the page offers (its submit button is disabled while \<open>isLoading\<close>).
\<close>

fun step :: "js_env \<Rightarrow> event \<Rightarrow> config \<Rightarrow> config option" where
  "step E (EditDocumentContent v) c =
     Some (c\<lparr>app := (app c)\<lparr>form := (form (app c))\<lparr>documentContent := v\<rparr>\<rparr>\<rparr>)"
| "step E (EditUserRole v) c =
     Some (c\<lparr>app := (app c)\<lparr>form := (form (app c))\<lparr>userRole := v\<rparr>\<rparr>\<rparr>)"
| "step E (EditAudienceType v) c =
     Some (c\<lparr>app := (app c)\<lparr>form := (form (app c))\<lparr>audienceType := v\<rparr>\<rparr>\<rparr>)"
| "step E (EditExplanationLevel v) c =
     Some (c\<lparr>app := (app c)\<lparr>form := (form (app c))\<lparr>explanationLevel := v\<rparr>\<rparr>\<rparr>)"
| "step E (EditExplanationTone v) c =
     Some (c\<lparr>app := (app c)\<lparr>form := (form (app c))\<lparr>explanationTone := v\<rparr>\<rparr>\<rparr>)"
| "step E (EditCurrentQuestion v) c =
     Some (c\<lparr>app := (app c)\<lparr>currentQuestion := v\<rparr>\<rparr>)"
| "step E SubmitAnalysis c =
     (case analyzeDocument_start E (app c) of
        (s', None) \<Rightarrow> Some (c\<lparr>app := s'\<rparr>)
      | (s', Some request) \<Rightarrow>
          Some (c\<lparr>app := s', analyses_in_flight := analyses_in_flight c @ [contents request]\<rparr>))"
| "step E (AnalysisSettles i outcome) c =
     (if i < length (analyses_in_flight c) then
        Some (c\<lparr>app := analyzeDocument_resume E (analyses_in_flight c ! i) outcome (app c),
               analyses_in_flight := drop_nth i (analyses_in_flight c)\<rparr>)
      else None)"
| "step E SubmitQuestion c =
     (case askFollowUpQuestion_start (app c) of
        (s', None) \<Rightarrow> Some (c\<lparr>app := s'\<rparr>)
      | (s', Some question) \<Rightarrow>
          Some (c\<lparr>app := s', questions_in_flight := questions_in_flight c @ [question]\<rparr>))"
| "step E (QuestionSettles i outcome) c =
     (if i < length (questions_in_flight c) then
        Some (c\<lparr>app := askFollowUpQuestion_resume outcome (app c),
               questions_in_flight := drop_nth i (questions_in_flight c)\<rparr>)
      else None)"
| "step E (FileChosen chosen) c =
     (case handleFileUpload_start chosen (app c) of
        (s', None) \<Rightarrow> Some (c\<lparr>app := s'\<rparr>)
      | (s', Some f) \<Rightarrow> Some (c\<lparr>app := s', uploads_in_flight := uploads_in_flight c @ [f]\<rparr>))"
| "step E (FileRead i) c =
     (if i < length (uploads_in_flight c) then
        Some (c\<lparr>app := handleFileUpload_resume (uploads_in_flight c ! i) (app c),
               uploads_in_flight := drop_nth i (uploads_in_flight c)\<rparr>)
      else None)"
| "step E (ClauseClicked n) c =
     (if n \<in> set (rendered_clause_numbers (app c)) then Some (c\<lparr>app := toggleClause n (app c)\<rparr>)
      else None)"

fun run :: "js_env \<Rightarrow> event list \<Rightarrow> config \<Rightarrow> config option" where
  "run E [] c = Some c"
| "run E (ev # evs) c = (case step E ev c of None \<Rightarrow> None | Some c' \<Rightarrow> run E evs c')"

definition initial_config :: "js_env \<Rightarrow> config" where
  "initial_config E =
     \<lparr>app = initial_state E, analyses_in_flight = [], questions_in_flight = [],
      uploads_in_flight = []\<rparr>"

definition reachable :: "js_env \<Rightarrow> config \<Rightarrow> bool" where
  "reachable E c = (\<exists>evs. run E evs (initial_config E) = Some c)"

text \<open>At most one \<open>sendMessage\<close> call is pending, and only while \<open>isChatLoading\<close>.\<close>

definition one_question_in_flight :: "config \<Rightarrow> bool" where
  "one_question_in_flight c =
     (length (questions_in_flight c) \<le> 1
      \<and> (questions_in_flight c = [] \<or> isChatLoading (app c)))"

section \<open>Concrete inputs\<close>

text \<open>Two responses of the model, as text and as the object the text parses to.\<close>

definition lease_json :: jsstring where
  \<open>lease_json = js ''{"title":"Lease","contract_type":"Lease","summary":"S","clauses":[{"clause_number":5,"simplified_text":"T","risk_level":"Low","risk_description":"D"}],"critical_clauses":[],"risk_levels":{"overall":"Low","explanation":"E"},"key_points":[],"audio_friendly_summary":"A"}''\<close>

definition lease_analysis :: analysis_result where
  "lease_analysis =
     \<lparr>title = js ''Lease'', contract_type = js ''Lease'', summary = js ''S'',
      clauses = [\<lparr>clause_number = 5, original_text = None, simplified_text = js ''T'',
                  risk_level = js ''Low'', risk_description = js ''D''\<rparr>],
      critical_clauses = [],
      risk_levels = \<lparr>overall = js ''Low'', explanation = js ''E''\<rparr>,
      sentiment = None, intent = None, key_points = [],
      audio_friendly_summary = js ''A''\<rparr>"

definition loan_json :: jsstring where
  \<open>loan_json = js ''{"title":"Loan","contract_type":"Loan","summary":"S","clauses":[{"clause_number":1,"simplified_text":"T","risk_level":"High","risk_description":"D"}],"critical_clauses":[],"risk_levels":{"overall":"High","explanation":"E"},"key_points":[],"audio_friendly_summary":"A"}''\<close>

definition loan_analysis :: analysis_result where
  "loan_analysis =
     \<lparr>title = js ''Loan'', contract_type = js ''Loan'', summary = js ''S'',
      clauses = [\<lparr>clause_number = 1, original_text = None, simplified_text = js ''T'',
                  risk_level = js ''High'', risk_description = js ''D''\<rparr>],
      critical_clauses = [],
      risk_levels = \<lparr>overall = js ''High'', explanation = js ''E''\<rparr>,
      sentiment = None, intent = None, key_points = [],
      audio_friendly_summary = js ''A''\<rparr>"

text \<open>
  A browser in which the client initialised, and one in which it did not. \<open>JSON.parse\<close>
  is given on the two texts above and on the empty text, with the message V8 reports
  for it; on every other text it reports a syntax error whose wording is a placeholder.
  \<open>ai.chats.create\<close> returns the session.
\<close>

definition browser :: js_env where
  "browser =
     \<lparr>ai = True,
      JSON_parse = (\<lambda>t. if t = lease_json then Inr lease_analysis
                         else if t = loan_json then Inr loan_analysis
                         else if t = [] then Inl (js ''Unexpected end of JSON input'')
                         else Inl (js ''Unexpected token'')),
      undefined_trim_message =
        js ''Cannot read properties of undefined (reading '' @ [0x27] @ js ''trim'' @ [0x27]
        @ js '')'',
      chats_create_throws = (\<lambda>prompt jsonText. None)\<rparr>"

definition browser_without_client :: js_env where
  "browser_without_client = browser\<lparr>ai := False\<rparr>"

text \<open>
  The form after the document has been typed, and the state after the lease has been
  analysed and its fifth clause opened.
\<close>

definition lease_form :: form_fields where
  "lease_form =
     \<lparr>documentContent = js ''The tenant pays rent.'', userRole = js ''Tenant'',
      audienceType = js ''Layman'', explanationLevel = js ''Layman'',
      explanationTone = js ''Casual''\<rparr>"

definition lease_ready :: state where
  "lease_ready =
     \<lparr>isLoading = False,
      analysis = Some lease_analysis,
      error = None,
      activeClause = Some 5,
      form = lease_form,
      chat = Some (chats_create (userPrompt lease_form) lease_json),
      chatHistory = [],
      isChatLoading = False,
      chatError = None,
      currentQuestion = []\<rparr>"

definition lease_page :: config where
  "lease_page =
     \<lparr>app = lease_ready, analyses_in_flight = [], questions_in_flight = [],
      uploads_in_flight = []\<rparr>"

definition lease_trace :: "event list" where
  "lease_trace =
     [EditDocumentContent (js ''The tenant pays rent.''), SubmitAnalysis,
      AnalysisSettles 0 (Resolved (Some lease_json)), ClauseClicked 5]"

text \<open>The same page while a question is pending, and after it has been answered.\<close>

definition lease_asking :: config where
  "lease_asking =
     \<lparr>app = lease_ready\<lparr>isChatLoading := True, chatHistory := [(User, js ''Who pays?'')]\<rparr>,
      analyses_in_flight = [], questions_in_flight = [js ''Who pays?''],
      uploads_in_flight = []\<rparr>"

definition lease_discussed :: state where
  "lease_discussed =
     lease_ready\<lparr>chatHistory := [(User, js ''Who pays?''), (Model, js ''The tenant.'')]\<rparr>"

definition discussed_page :: config where
  "discussed_page =
     \<lparr>app = lease_discussed, analyses_in_flight = [], questions_in_flight = [],
      uploads_in_flight = []\<rparr>"

definition question_trace :: "event list" where
  "question_trace = [EditCurrentQuestion (js ''  Who pays?  ''), SubmitQuestion]"

text \<open>Files: a two-page PDF, a text file, and a text file of white space.\<close>

definition hello_world_pdf :: chosen_file where
  "hello_world_pdf =
     \<lparr>file_name = js ''hello.pdf'', file_type = js ''application/pdf'',
      pdf_document = Inr [Inr [TextItem (js ''Hello'')], Inr [TextItem (js ''World'')]],
      file_text = Inr []\<rparr>"

definition notes_txt :: chosen_file where
  "notes_txt =
     \<lparr>file_name = js ''notes.txt'', file_type = js ''text/plain'',
      pdf_document = Inl (js ''Invalid PDF structure.''),
      file_text = Inr (js ''The borrower repays the loan.'')\<rparr>"

definition blank_txt :: chosen_file where
  "blank_txt =
     \<lparr>file_name = js ''blank.txt'', file_type = js ''text/plain'',
      pdf_document = Inl (js ''Invalid PDF structure.''),
      file_text = Inr (js ''  \<newline>'')\<rparr>"

text \<open>
  Two overlapping analyses. While the first request is pending a text file is chosen and
  read, which clears \<open>isLoading\<close> and so enables the submit button again; the document
  now in the form is submitted, its request resolves, and then the first request is
  rejected.
\<close>

definition overlapping_trace :: "event list" where
  "overlapping_trace =
     [EditDocumentContent (js ''The tenant pays rent.''), SubmitAnalysis,
      FileChosen (Some notes_txt), FileRead 0, SubmitAnalysis,
      AnalysisSettles 1 (Resolved (Some loan_json)),
      AnalysisSettles 0 (Rejected (Thrown_with_message (js ''503 Service Unavailable'')))]"

section \<open>Facts about the concrete inputs\<close>

lemma trim_document: "trim (js ''The tenant pays rent.'') = js ''The tenant pays rent.''"
  by (simp add: trim_def js_def isWhiteSpace_def)

lemma document_not_blank: "trim (documentContent lease_form) \<noteq> []"
  by (simp add: lease_form_def trim_document) (simp add: js_def)

lemma trim_lease_json: "trim lease_json = lease_json"
  by (simp add: trim_def js_def isWhiteSpace_def lease_json_def)

lemma trim_loan_json: "trim loan_json = loan_json"
  by (simp add: trim_def js_def isWhiteSpace_def loan_json_def)

lemma loan_json_neq: "loan_json \<noteq> lease_json"
  by (simp add: js_def lease_json_def loan_json_def)

lemma ai_browser: "ai browser"
  by (simp add: browser_def)

lemma create_browser: "chats_create_throws browser prompt jsonText = None"
  by (simp add: browser_def)

lemma parse_lease_json: "JSON_parse browser lease_json = Inr lease_analysis"
  by (simp add: browser_def)

lemma parse_loan_json: "JSON_parse browser loan_json = Inr loan_analysis"
  by (simp add: browser_def loan_json_neq)

lemma response_lease:
  "response_json browser (Resolved (Some lease_json)) = Inr (lease_json, lease_analysis)"
  by (simp add: response_json_def trim_lease_json parse_lease_json)

lemma response_loan:
  "response_json browser (Resolved (Some loan_json)) = Inr (loan_json, loan_analysis)"
  by (simp add: response_json_def trim_loan_json parse_loan_json)

lemma trim_question: "trim (js ''  Who pays?  '') = js ''Who pays?''"
  by (simp add: trim_def js_def isWhiteSpace_def)

lemma question_not_blank: "js ''Who pays?'' \<noteq> []"
  by (simp add: js_def)

section \<open>Runs\<close>

lemma run_append:
  "run E (evs @ evs') c = (case run E evs c of None \<Rightarrow> None | Some c' \<Rightarrow> run E evs' c')"
  by (induction evs arbitrary: c) (auto split: option.splits)

lemma reachable_run:
  "reachable E c \<Longrightarrow> run E evs c = Some c' \<Longrightarrow> reachable E c'"
  unfolding reachable_def
proof (elim exE)
  fix evs0
  assume "run E evs0 (initial_config E) = Some c" and "run E evs c = Some c'"
  then have "run E (evs0 @ evs) (initial_config E) = Some c'"
    by (simp add: run_append)
  then show "\<exists>evs. run E evs (initial_config E) = Some c'" ..
qed

lemma run_lease_trace:
  "run browser lease_trace (initial_config browser) = Some lease_page"
  using document_not_blank
  by (simp add: lease_trace_def lease_page_def initial_config_def initial_state_def ai_browser
      analyzeDocument_start_def analyzeDocument_resume_def response_lease create_browser
      drop_nth_def lease_ready_def lease_form_def rendered_clause_numbers_def renderAnalysis_def truthy_def
      lease_analysis_def toggleClause_def)

lemma reachable_lease_page: "reachable browser lease_page"
  unfolding reachable_def using run_lease_trace by blast

lemma run_question_trace: "run browser question_trace lease_page = Some lease_asking"
  by (simp add: question_trace_def lease_page_def askFollowUpQuestion_start_def trim_question
      question_not_blank lease_asking_def Let_def lease_ready_def)

lemma reachable_lease_asking: "reachable browser lease_asking"
  using reachable_run [OF reachable_lease_page run_question_trace] .

lemma run_answer:
  "run browser [QuestionSettles 0 (SendResolved (js ''The tenant.''))] lease_asking
   = Some discussed_page"
  by (simp add: lease_asking_def discussed_page_def askFollowUpQuestion_resume_def drop_nth_def
      lease_discussed_def lease_ready_def)

lemma reachable_discussed_page: "reachable browser discussed_page"
  using reachable_run [OF reachable_lease_asking run_answer] .

section \<open>Properties of toggleClause\<close>

text \<open>
  C8. Toggling clause N while N is active clears the active clause; toggling M while the
  active clause is another number or none makes M active; toggling N twice from a state
  where the active clause is N or none restores the start value; and a state holds at
  most one active clause number, so any two expanded accordion items carry the same
  clause number. No other field of the state is written.
\<close>

theorem toggleClause_algebra:
  "(activeClause s = Some n \<longrightarrow> activeClause (toggleClause n s) = None)
   \<and> (activeClause s \<noteq> Some m \<longrightarrow> activeClause (toggleClause m s) = Some m)
   \<and> (activeClause s = Some n \<or> activeClause s = None \<longrightarrow>
        activeClause (toggleClause n (toggleClause n s)) = activeClause s)
   \<and> (expanded t c1 \<and> expanded t c2 \<longrightarrow> clause_number c1 = clause_number c2)
   \<and> toggleClause n s = s\<lparr>activeClause := activeClause (toggleClause n s)\<rparr>"
  by (auto simp: toggleClause_def expanded_def)

theorem toggleClause_algebra_witness:
  "activeClause lease_ready = Some 5
   \<and> activeClause (toggleClause 5 lease_ready) = None
   \<and> activeClause lease_ready \<noteq> Some 7
   \<and> activeClause (toggleClause 7 lease_ready) = Some 7
   \<and> activeClause (toggleClause 5 (toggleClause 5 lease_ready)) = activeClause lease_ready
   \<and> expanded lease_ready (hd (clauses lease_analysis))
   \<and> clause_number (hd (clauses lease_analysis)) = 5"
  using toggleClause_algebra [of lease_ready 5 7 lease_ready "hd (clauses lease_analysis)"
      "hd (clauses lease_analysis)"]
  by (simp add: lease_ready_def lease_analysis_def expanded_def)

section \<open>Frame lemmas\<close>

lemma analyzeDocument_start_frame:
  "analyzeDocument_start E s = (s', r) \<Longrightarrow>
     isChatLoading s' = isChatLoading s \<and> activeClause s' = activeClause s
     \<and> chatError s' = chatError s \<and> currentQuestion s' = currentQuestion s"
  by (auto simp: analyzeDocument_start_def split: if_splits)

lemma analyzeDocument_resume_frame:
  "isChatLoading (analyzeDocument_resume E p outcome s) = isChatLoading s
   \<and> activeClause (analyzeDocument_resume E p outcome s) = activeClause s
   \<and> chatError (analyzeDocument_resume E p outcome s) = chatError s
   \<and> currentQuestion (analyzeDocument_resume E p outcome s) = currentQuestion s"
  by (simp add: analyzeDocument_resume_def analyzeDocument_catch_def
      split: sum.splits prod.splits option.splits thrown.splits)

lemma handleFileUpload_resume_frame:
  "isChatLoading (handleFileUpload_resume f s) = isChatLoading s
   \<and> activeClause (handleFileUpload_resume f s) = activeClause s
   \<and> chat (handleFileUpload_resume f s) = chat s
   \<and> chatHistory (handleFileUpload_resume f s) = chatHistory s
   \<and> analysis (handleFileUpload_resume f s) = analysis s"
  by (simp add: handleFileUpload_resume_def split: sum.splits)

lemma handleFileUpload_start_frame:
  "handleFileUpload_start chosen s = (s', r) \<Longrightarrow>
     isChatLoading s' = isChatLoading s \<and> activeClause s' = activeClause s
     \<and> chat s' = chat s \<and> chatHistory s' = chatHistory s"
  by (auto simp: handleFileUpload_start_def Let_def handleFileUpload_resume_frame
      split: option.splits if_splits)

lemma askFollowUpQuestion_start_frame:
  "askFollowUpQuestion_start s = (s', r) \<Longrightarrow>
     activeClause s' = activeClause s \<and> analysis s' = analysis s"
  by (auto simp: askFollowUpQuestion_start_def Let_def split: if_splits)

lemma askFollowUpQuestion_resume_frame:
  "activeClause (askFollowUpQuestion_resume outcome s) = activeClause s
   \<and> analysis (askFollowUpQuestion_resume outcome s) = analysis s"
  by (simp add: askFollowUpQuestion_resume_def split: send_outcome.splits)

lemma length_drop_nth: "i < length xs \<Longrightarrow> length (drop_nth i xs) = length xs - 1"
  by (simp add: drop_nth_def)

section \<open>One question in flight\<close>

lemma step_one_question_in_flight:
  assumes "step E ev c = Some c'" and "one_question_in_flight c"
  shows "one_question_in_flight c'"
proof (cases ev)
  case SubmitAnalysis
  with assms show ?thesis
    by (auto simp: one_question_in_flight_def split: prod.splits option.splits
        dest: analyzeDocument_start_frame)
next
  case (AnalysisSettles i outcome)
  with assms show ?thesis
    by (auto simp: one_question_in_flight_def analyzeDocument_resume_frame split: if_splits)
next
  case SubmitQuestion
  with assms show ?thesis
    by (auto simp: one_question_in_flight_def askFollowUpQuestion_start_def Let_def
        split: prod.splits option.splits if_splits)
next
  case (QuestionSettles i outcome)
  show ?thesis
  proof -
    from assms QuestionSettles have i: "i < length (questions_in_flight c)"
      and c': "c' = c\<lparr>app := askFollowUpQuestion_resume outcome (app c),
          questions_in_flight := drop_nth i (questions_in_flight c)\<rparr>"
      by (auto split: if_splits)
    from i assms(2) have "length (drop_nth i (questions_in_flight c)) = 0"
      by (simp add: length_drop_nth one_question_in_flight_def)
    with c' show ?thesis by (simp add: one_question_in_flight_def)
  qed
next
  case (FileChosen chosen)
  with assms show ?thesis
    by (auto simp: one_question_in_flight_def split: prod.splits option.splits
        dest: handleFileUpload_start_frame)
next
  case (FileRead i)
  with assms show ?thesis
    by (auto simp: one_question_in_flight_def handleFileUpload_resume_frame split: if_splits)
next
  case (ClauseClicked n)
  with assms show ?thesis
    by (auto simp: one_question_in_flight_def toggleClause_def split: if_splits)
qed (use assms in \<open>auto simp: one_question_in_flight_def\<close>)

lemma run_one_question_in_flight:
  "run E evs c = Some c' \<Longrightarrow> one_question_in_flight c \<Longrightarrow> one_question_in_flight c'"
proof (induction evs arbitrary: c)
  case Nil
  then show ?case by simp
next
  case (Cons ev evs)
  then show ?case by (auto split: option.splits dest: step_one_question_in_flight)
qed

lemma reachable_one_question_in_flight: "reachable E c \<Longrightarrow> one_question_in_flight c"
proof -
  assume "reachable E c"
  then obtain evs where "run E evs (initial_config E) = Some c"
    by (auto simp: reachable_def)
  moreover have "one_question_in_flight (initial_config E)"
    by (simp add: one_question_in_flight_def initial_config_def)
  ultimately show ?thesis by (rule run_one_question_in_flight)
qed

text \<open>
  C7. While a chat turn is in flight (\<open>isChatLoading\<close> is true), submitting another
  question changes nothing: the call returns the state as it is, transcript included,
  and sends no message. In every reachable configuration at most one \<open>sendMessage\<close>
  call is pending, and one is pending only while \<open>isChatLoading\<close> is true.
\<close>

theorem second_question_is_noop:
  "(isChatLoading s \<longrightarrow>
      askFollowUpQuestion_start s = (s, None) \<and> askFollowUpQuestion outcome s = s)
   \<and> (isChatLoading (app c) \<longrightarrow> step E SubmitQuestion c = Some c)
   \<and> (reachable E c \<longrightarrow> one_question_in_flight c)"
  by (simp add: askFollowUpQuestion_start_def askFollowUpQuestion_def
      reachable_one_question_in_flight)

theorem second_question_is_noop_witness:
  "reachable browser lease_asking
   \<and> isChatLoading (app lease_asking)
   \<and> questions_in_flight lease_asking = [js ''Who pays?'']
   \<and> askFollowUpQuestion_start (app lease_asking\<lparr>currentQuestion := js ''And when?''\<rparr>)
       = (app lease_asking\<lparr>currentQuestion := js ''And when?''\<rparr>, None)
   \<and> step browser SubmitQuestion lease_asking = Some lease_asking
   \<and> one_question_in_flight lease_asking"
proof -
  have loading: "isChatLoading (app lease_asking)"
    and loading': "isChatLoading (app lease_asking\<lparr>currentQuestion := js ''And when?''\<rparr>)"
    and pending: "questions_in_flight lease_asking = [js ''Who pays?'']"
    by (simp_all add: lease_asking_def)
  from second_question_is_noop [of "app lease_asking\<lparr>currentQuestion := js ''And when?''\<rparr>"
      "SendResolved []" lease_asking browser] loading loading' pending reachable_lease_asking
  show ?thesis by simp
qed

section \<open>Properties of askFollowUpQuestion\<close>

text \<open>
  C10. When the chat session is absent or the pending question trims to the empty
  string, \<open>askFollowUpQuestion\<close> leaves the whole state unchanged and sends no message.
  When it sends a message, the message and the user turn appended to the transcript are
  the trimmed pending question.
\<close>

theorem askFollowUpQuestion_guard_and_trim:
  "(chat s = None \<or> trim (currentQuestion s) = [] \<longrightarrow>
      askFollowUpQuestion_start s = (s, None) \<and> askFollowUpQuestion outcome s = s)
   \<and> (askFollowUpQuestion_start t = (t', Some q) \<longrightarrow>
        q = trim (currentQuestion t)
        \<and> t' = t\<lparr>isChatLoading := True, chatError := None,
                  chatHistory := chatHistory t @ [(User, trim (currentQuestion t))],
                  currentQuestion := []\<rparr>)"
  by (auto simp: askFollowUpQuestion_start_def askFollowUpQuestion_def Let_def split: if_splits)

theorem askFollowUpQuestion_guard_and_trim_witness:
  "trim (currentQuestion (lease_ready\<lparr>currentQuestion := js ''  ''\<rparr>)) = []
   \<and> askFollowUpQuestion (SendResolved (js ''The tenant.'')) (lease_ready\<lparr>currentQuestion := js ''  ''\<rparr>)
       = lease_ready\<lparr>currentQuestion := js ''  ''\<rparr>
   \<and> askFollowUpQuestion_start (lease_ready\<lparr>currentQuestion := js ''  Who pays?  ''\<rparr>)
       = (app lease_asking, Some (js ''Who pays?''))
   \<and> chatHistory (app lease_asking) = [(User, js ''Who pays?'')]"
proof -
  let ?blank = "lease_ready\<lparr>currentQuestion := js ''  ''\<rparr>"
  let ?draft = "lease_ready\<lparr>currentQuestion := js ''  Who pays?  ''\<rparr>"
  have blank: "trim (currentQuestion ?blank) = []"
    by (simp add: trim_def js_def isWhiteSpace_def)
  have sent: "askFollowUpQuestion_start ?draft = (app lease_asking, Some (js ''Who pays?''))"
    by (simp add: askFollowUpQuestion_start_def trim_question question_not_blank Let_def
        lease_asking_def lease_ready_def)
  have transcript: "chatHistory (app lease_asking) = [(User, js ''Who pays?'')]"
    by (simp add: lease_asking_def)
  from askFollowUpQuestion_guard_and_trim [of ?blank "SendResolved (js ''The tenant.'')" ?draft
      "app lease_asking" "js ''Who pays?''"] blank sent transcript
  show ?thesis by simp
qed

section \<open>Properties of handleFileUpload\<close>

lemma extract_pages_text_items:
  "extract_pages (map (\<lambda>items. Inr (map TextItem items)) pages) pageTexts
   = Inr (pageTexts @ map (join (js '' '')) pages)"
proof (induction pages arbitrary: pageTexts)
  case Nil
  then show ?case by simp
next
  case (Cons items pages)
  have "map item_str (map TextItem items) = items"
    by (induction items) (simp_all add: item_str_def)
  with Cons show ?case by simp
qed

text \<open>
  C6. For a file of type \<open>application/pdf\<close> whose extraction yields pages 1..N, each an
  ordered list of text items, ingestion stores in \<open>documentContent\<close> the string formed by
  joining the item texts of each page with single spaces, in their order, and joining
  the page texts with a blank line: pages Hello and World give the two words separated
  by two line feeds. This holds for the text computed by the \<open>try\<close> block, for the
  continuation from any state, and for the whole handler.
\<close>

theorem pdf_ingestion:
  assumes "file_type f = js ''application/pdf''"
    and "pdf_document f = Inr (map (\<lambda>items. Inr (map TextItem items)) pages)"
  shows "read_file f = Inr (join (js ''\<newline>\<newline>'') (map (join (js '' '')) pages))
    \<and> documentContent (form (handleFileUpload_resume f t))
        = join (js ''\<newline>\<newline>'') (map (join (js '' '')) pages)
    \<and> documentContent (form (handleFileUpload (Some f) s))
        = join (js ''\<newline>\<newline>'') (map (join (js '' '')) pages)"
proof -
  from assms have r: "read_file f = Inr (join (js ''\<newline>\<newline>'') (map (join (js '' '')) pages))"
    by (simp add: read_file_def extract_pages_text_items)
  then have "documentContent (form (handleFileUpload_resume f u))
        = join (js ''\<newline>\<newline>'') (map (join (js '' '')) pages)" for u
    by (simp add: handleFileUpload_resume_def)
  with r assms(1) show ?thesis
    by (simp add: handleFileUpload_def handleFileUpload_start_def Let_def)
qed

theorem pdf_ingestion_witness:
  "file_type hello_world_pdf = js ''application/pdf''
   \<and> pdf_document hello_world_pdf
       = Inr [Inr [TextItem (js ''Hello'')], Inr [TextItem (js ''World'')]]
   \<and> documentContent (form (handleFileUpload (Some hello_world_pdf) lease_ready))
       = js ''Hello\<newline>\<newline>World''"
proof -
  have ty: "file_type hello_world_pdf = js ''application/pdf''"
    and doc: "pdf_document hello_world_pdf
       = Inr (map (\<lambda>items. Inr (map TextItem items)) [[js ''Hello''], [js ''World'']])"
    by (simp_all add: hello_world_pdf_def)
  have "join (js ''\<newline>\<newline>'') (map (join (js '' '')) [[js ''Hello''], [js ''World'']])
      = js ''Hello\<newline>\<newline>World''"
    by (simp add: js_def)
  with pdf_ingestion [OF ty doc, of lease_ready lease_ready] ty doc
  show ?thesis by simp
qed

section \<open>Properties of analyzeDocument\<close>

lemma trim_blank_txt: "trim (js ''  \<newline>'') = []"
  by (simp add: trim_def js_def isWhiteSpace_def)

lemma text_plain_not_pdf: "js ''text/plain'' \<noteq> js ''application/pdf''"
  by (simp add: js_def)

lemma ai_browser_without_client: "\<not> ai browser_without_client"
  by (simp add: browser_without_client_def)

text \<open>
  C5, as stated, fails where the client did not initialise: \<open>analyzeDocument\<close> returns at
  its first test, before the document is looked at. After a file of white space has been
  uploaded the document is blank and the error is \<open>null\<close>; submitting then issues no
  call and leaves the state as it is, with no validation error.
\<close>

theorem blank_document_without_client:
  "trim (documentContent (form (handleFileUpload (Some blank_txt)
        (initial_state browser_without_client)))) = []
   \<and> snd (analyzeDocument_start browser_without_client
        (handleFileUpload (Some blank_txt) (initial_state browser_without_client))) = None
   \<and> error (fst (analyzeDocument_start browser_without_client
        (handleFileUpload (Some blank_txt) (initial_state browser_without_client)))) = None"
  by (simp add: handleFileUpload_def handleFileUpload_start_def handleFileUpload_resume_def
      read_file_def blank_txt_def Let_def trim_blank_txt analyzeDocument_start_def
      ai_browser_without_client text_plain_not_pdf)

text \<open>
  C5, amended. For every state whose document text is empty or white space only,
  submitting the analysis form issues no network call; when the client initialised it
  sets the validation error and changes nothing else, and when the client is
  unavailable it leaves the state unchanged.
\<close>

theorem blank_document_submission:
  assumes "trim (documentContent (form s)) = []"
  shows "analyzeDocument_start E s
       = (if ai E then s\<lparr>error := Some (js ''Please paste or upload a document to analyze.'')\<rparr>
          else s, None)
     \<and> analyzeDocument E outcome s
       = (if ai E then s\<lparr>error := Some (js ''Please paste or upload a document to analyze.'')\<rparr>
          else s)"
  using assms by (simp add: analyzeDocument_start_def analyzeDocument_def)

theorem blank_document_submission_witness:
  "trim (documentContent (form (initial_state browser))) = []
   \<and> analyzeDocument_start browser (initial_state browser)
       = ((initial_state browser)\<lparr>error := Some (js ''Please paste or upload a document to analyze.'')\<rparr>, None)
   \<and> trim (documentContent (form (initial_state browser_without_client))) = []
   \<and> analyzeDocument_start browser_without_client (initial_state browser_without_client)
       = (initial_state browser_without_client, None)"
proof -
  have a: "trim (documentContent (form (initial_state browser))) = []"
    and b: "trim (documentContent (form (initial_state browser_without_client))) = []"
    by (simp_all add: initial_state_def trim_def)
  from blank_document_submission [OF a, of browser "Resolved None"]
    blank_document_submission [OF b, of browser_without_client "Resolved None"]
    a b ai_browser ai_browser_without_client
  show ?thesis by simp
qed


lemma error_message_truthy: "truthy (Some (js (c # cs) @ x)) = Some (js (c # cs) @ x)"
  by (simp add: truthy_def js_def)

lemma response_json_failure:
  assumes "outcome = Rejected (Thrown_with_message cause)
      \<or> outcome = Resolved None \<and> cause = undefined_trim_message E
      \<or> (\<exists>text. outcome = Resolved (Some text) \<and> JSON_parse E (trim text) = Inl cause)"
  shows "response_json E outcome = Inl (Thrown_with_message cause)"
  using assms by (auto simp: response_json_def)

lemma response_rejected: "response_json E (Rejected e) = Inl e"
  by (simp add: response_json_def)

lemma notes_not_blank: "trim (js ''The borrower repays the loan.'') \<noteq> []"
  by (simp add: trim_def js_def isWhiteSpace_def)

lemma service_unavailable_message:
  "js ''An error occurred during analysis: '' @ js ''503 Service Unavailable''
     @ js ''. Please try again.''
   = js ''An error occurred during analysis: 503 Service Unavailable. Please try again.''"
  by (simp add: js_def)

text \<open>
  C2, as stated, fails: a call that fails can return with an analysis in the state. In
  the run of two overlapping analyses the second request resolves while the first is
  pending; when the first is then rejected its continuation sets the error and clears
  the loading flag, no call is pending any more, and the state holds the analysis of the
  second.
\<close>

theorem failed_call_returns_with_analysis:
  "map_option (\<lambda>c. (analysis (app c), error (app c), isLoading (app c), analyses_in_flight c))
     (run browser overlapping_trace (initial_config browser))
   = Some (Some loan_analysis,
           Some (js ''An error occurred during analysis: 503 Service Unavailable. Please try again.''),
           False, [])"
  using document_not_blank notes_not_blank
  by (simp add: overlapping_trace_def initial_config_def initial_state_def ai_browser
      analyzeDocument_start_def analyzeDocument_resume_def analyzeDocument_catch_def
      response_loan response_rejected create_browser drop_nth_def lease_form_def
      handleFileUpload_start_def handleFileUpload_resume_def read_file_def notes_txt_def
      Let_def text_plain_not_pdf service_unavailable_message)

text \<open>
  C2, amended. If the analysis request is rejected with an error that carries a message,
  or the response carries no text, or the trimmed text does not parse, then the
  continuation of \<open>analyzeDocument\<close> keeps no partial analysis: from whatever state it
  resumes, it leaves the analysis and the chat session as it finds them, sets the error
  to the one message built around the cause of the failure, and clears the loading flag.
  When no other handler ran during the \<open>await\<close>, the analysis is therefore the \<open>null\<close>
  the call assigned before it issued the request, and the output panel shows that
  message.
\<close>

theorem failed_analysis:
  assumes "outcome = Rejected (Thrown_with_message cause)
      \<or> outcome = Resolved None \<and> cause = undefined_trim_message E
      \<or> (\<exists>text. outcome = Resolved (Some text) \<and> JSON_parse E (trim text) = Inl cause)"
  shows "analysis (analyzeDocument_resume E prompt outcome t) = analysis t
    \<and> chat (analyzeDocument_resume E prompt outcome t) = chat t
    \<and> error (analyzeDocument_resume E prompt outcome t)
        = Some (js ''An error occurred during analysis: '' @ cause @ js ''. Please try again.'')
    \<and> \<not> isLoading (analyzeDocument_resume E prompt outcome t)
    \<and> (ai E \<and> trim (documentContent (form s)) \<noteq> [] \<longrightarrow>
          analysis (analyzeDocument E outcome s) = None
          \<and> error (analyzeDocument E outcome s)
              = Some (js ''An error occurred during analysis: '' @ cause @ js ''. Please try again.'')
          \<and> \<not> isLoading (analyzeDocument E outcome s)
          \<and> chat (analyzeDocument E outcome s) = None
          \<and> renderAnalysis (analyzeDocument E outcome s)
              = ErrorView (js ''An error occurred during analysis: '' @ cause
                           @ js ''. Please try again.''))"
proof -
  from assms have "response_json E outcome = Inl (Thrown_with_message cause)"
    by (rule response_json_failure)
  then show ?thesis
    by (simp add: analyzeDocument_def analyzeDocument_start_def analyzeDocument_resume_def
        analyzeDocument_catch_def renderAnalysis_def error_message_truthy)
qed

theorem failed_analysis_witness:
  "analysis (analyzeDocument browser
       (Rejected (Thrown_with_message (js ''503 Service Unavailable''))) lease_ready) = None
   \<and> error (analyzeDocument browser
       (Rejected (Thrown_with_message (js ''503 Service Unavailable''))) lease_ready)
       = Some (js ''An error occurred during analysis: 503 Service Unavailable. Please try again.'')
   \<and> analysis (analyzeDocument_resume browser []
       (Rejected (Thrown_with_message (js ''503 Service Unavailable''))) lease_ready)
       = Some lease_analysis
   \<and> analysis (analyzeDocument browser (Resolved None) lease_ready) = None
   \<and> error (analyzeDocument browser (Resolved None) lease_ready)
       = Some (js ''An error occurred during analysis: '' @ undefined_trim_message browser
               @ js ''. Please try again.'')
   \<and> analysis (analyzeDocument browser (Resolved (Some (js ''  ''))) lease_ready) = None
   \<and> error (analyzeDocument browser (Resolved (Some (js ''  ''))) lease_ready)
       = Some (js ''An error occurred during analysis: Unexpected end of JSON input. Please try again.'')"
proof -
  have doc: "trim (documentContent (form lease_ready)) \<noteq> []"
    using document_not_blank by (simp add: lease_ready_def)
  have held: "analysis lease_ready = Some lease_analysis"
    by (simp add: lease_ready_def)
  have blank: "trim (js ''  '') = []"
    by (simp add: trim_def js_def isWhiteSpace_def)
  have "[] \<noteq> lease_json" "[] \<noteq> loan_json"
    by (simp_all add: js_def lease_json_def loan_json_def)
  then have parse: "JSON_parse browser (trim (js ''  '')) = Inl (js ''Unexpected end of JSON input'')"
    by (simp add: blank browser_def)
  have m2: "js ''An error occurred during analysis: '' @ js ''Unexpected end of JSON input''
        @ js ''. Please try again.''
      = js ''An error occurred during analysis: Unexpected end of JSON input. Please try again.''"
    by (simp add: js_def)
  from failed_analysis [of "Rejected (Thrown_with_message (js ''503 Service Unavailable''))"
      "js ''503 Service Unavailable''" browser "[]" lease_ready lease_ready]
    failed_analysis [of "Resolved None" "undefined_trim_message browser" browser
      "[]" lease_ready lease_ready]
    failed_analysis [of "Resolved (Some (js ''  ''))" "js ''Unexpected end of JSON input''"
      browser "[]" lease_ready lease_ready]
    ai_browser doc held parse service_unavailable_message m2
  show ?thesis by simp
qed

text \<open>
  The one failure that leaves an analysis of its own call behind: when the text has
  parsed and \<open>ai.chats.create\<close> throws, the analysis assigned at line 144 stays, next to
  the error.
\<close>

lemma session_creation_throws:
  assumes "response_json E outcome = Inr (jsonText, parsed)"
    and "chats_create_throws E prompt jsonText = Some (Thrown_with_message cause)"
  shows "analysis (analyzeDocument_resume E prompt outcome t) = Some parsed
    \<and> chat (analyzeDocument_resume E prompt outcome t) = chat t
    \<and> error (analyzeDocument_resume E prompt outcome t)
        = Some (js ''An error occurred during analysis: '' @ cause @ js ''. Please try again.'')
    \<and> \<not> isLoading (analyzeDocument_resume E prompt outcome t)"
  using assms by (simp add: analyzeDocument_resume_def analyzeDocument_catch_def)




text \<open>
  C9. \<open>analyzeDocument\<close> writes neither \<open>chatError\<close> nor \<open>currentQuestion\<close>: both segments
  and the whole call leave them as they were. So whenever the output panel shows an
  analysis with its chat panel after the call, that panel shows the chat error and the
  draft question the state held before the call.
\<close>

theorem analyzeDocument_keeps_chat_error_and_draft:
  "chatError (fst (analyzeDocument_start E s)) = chatError s
   \<and> currentQuestion (fst (analyzeDocument_start E s)) = currentQuestion s
   \<and> chatError (analyzeDocument_resume E prompt outcome t) = chatError t
   \<and> currentQuestion (analyzeDocument_resume E prompt outcome t) = currentQuestion t
   \<and> chatError (analyzeDocument E outcome s) = chatError s
   \<and> currentQuestion (analyzeDocument E outcome s) = currentQuestion s
   \<and> (renderAnalysis (analyzeDocument E outcome s) = AnalysisView a (Some panel) \<longrightarrow>
        shown_chat_error panel = truthy (chatError s)
        \<and> input_value panel = currentQuestion s)"
proof -
  obtain s' r where start: "analyzeDocument_start E s = (s', r)"
    by (cases "analyzeDocument_start E s")
  note f = analyzeDocument_start_frame [OF start]
  have run: "chatError (analyzeDocument E outcome s) = chatError s
      \<and> currentQuestion (analyzeDocument E outcome s) = currentQuestion s"
    using f by (cases r) (simp_all add: analyzeDocument_def start analyzeDocument_resume_frame)
  have "shown_chat_error panel = truthy (chatError s) \<and> input_value panel = currentQuestion s"
    if "renderAnalysis (analyzeDocument E outcome s) = AnalysisView a (Some panel)"
  proof -
    from that have "renderChat (analyzeDocument E outcome s) = Some panel"
      by (auto simp: renderAnalysis_def split: if_splits option.splits)
    then have "panel = \<lparr>shown_messages = chatHistory (analyzeDocument E outcome s),
        typing_indicator = isChatLoading (analyzeDocument E outcome s),
        shown_chat_error = truthy (chatError (analyzeDocument E outcome s)),
        input_value = currentQuestion (analyzeDocument E outcome s),
        input_disabled = isChatLoading (analyzeDocument E outcome s),
        send_disabled = (trim (currentQuestion (analyzeDocument E outcome s)) = []
           \<or> isChatLoading (analyzeDocument E outcome s))\<rparr>"
      by (auto simp: renderChat_def split: if_splits)
    with run show ?thesis by simp
  qed
  with run f start show ?thesis
    by (simp add: analyzeDocument_resume_frame)
qed


theorem analyzeDocument_keeps_chat_error_and_draft_witness:
  "renderAnalysis (analyzeDocument browser (Resolved (Some loan_json))
       (lease_discussed\<lparr>chatError := Some (js ''Sorry, an error occurred: timeout''),
                         currentQuestion := js ''And when''\<rparr>))
     = AnalysisView loan_analysis
         (Some \<lparr>shown_messages = [], typing_indicator = False,
                shown_chat_error = Some (js ''Sorry, an error occurred: timeout''),
                input_value = js ''And when'', input_disabled = False, send_disabled = False\<rparr>)
   \<and> chatError (analyzeDocument browser (Resolved (Some loan_json))
       (lease_discussed\<lparr>chatError := Some (js ''Sorry, an error occurred: timeout''),
                         currentQuestion := js ''And when''\<rparr>))
     = Some (js ''Sorry, an error occurred: timeout'')"
proof -
  let ?s = "lease_discussed\<lparr>chatError := Some (js ''Sorry, an error occurred: timeout''),
                         currentQuestion := js ''And when''\<rparr>"
  let ?panel = "\<lparr>shown_messages = [], typing_indicator = False,
                shown_chat_error = Some (js ''Sorry, an error occurred: timeout''),
                input_value = js ''And when'', input_disabled = False, send_disabled = False\<rparr>"
  have doc: "trim (documentContent (form ?s)) \<noteq> []"
    using document_not_blank by (simp add: lease_discussed_def lease_ready_def)
  have draft: "trim (js ''And when'') \<noteq> []"
    by (simp add: trim_def js_def isWhiteSpace_def)
  have view: "renderAnalysis (analyzeDocument browser (Resolved (Some loan_json)) ?s)
      = AnalysisView loan_analysis (Some ?panel)"
    using doc draft
    by (simp add: analyzeDocument_def analyzeDocument_start_def analyzeDocument_resume_def
        ai_browser response_loan create_browser renderAnalysis_def renderChat_def truthy_def
        lease_discussed_def lease_ready_def)
      (simp add: js_def)
  from analyzeDocument_keeps_chat_error_and_draft [of browser ?s "[]" "Resolved (Some loan_json)"
      ?s loan_analysis ?panel] view
  show ?thesis by simp
qed

section \<open>The active clause\<close>

lemma active_clause_valid_cong:
  "activeClause s' = activeClause s \<Longrightarrow> analysis s' = analysis s \<Longrightarrow>
     active_clause_valid s' = active_clause_valid s"
  by (simp add: active_clause_valid_def split: option.splits)

text \<open>
  C4, as stated, fails: after the lease has been analysed and its clause 5 opened, a
  second successful analysis, whose only clause is number 1, leaves the active clause
  at 5.
\<close>

theorem active_clause_outlives_its_analysis:
  "map_option (\<lambda>c. (activeClause (app c),
                     map_option (\<lambda>a. map clause_number (clauses a)) (analysis (app c)),
                     active_clause_valid (app c)))
     (run browser (lease_trace @ [SubmitAnalysis, AnalysisSettles 0 (Resolved (Some loan_json))])
        (initial_config browser))
   = Some (Some 5, Some [1], False)"
  using document_not_blank
  by (simp add: run_append run_lease_trace lease_page_def analyzeDocument_start_def ai_browser
      analyzeDocument_resume_def response_loan create_browser drop_nth_def lease_ready_def
      active_clause_valid_def loan_analysis_def)

text \<open>
  C4, amended. The active clause is written only by a click on an accordion header.
  Right after such a click it is none or a clause number of the current analysis, and
  every event that leaves the analysis as it is keeps it so. Every event other than a
  click, the start and the settling of an analysis and a file upload among them, leaves
  the active clause unchanged.
\<close>

theorem active_clause_step:
  assumes "step E ev c = Some c'"
  shows "(ev = ClauseClicked n \<longrightarrow> active_clause_valid (app c'))
    \<and> (analysis (app c') = analysis (app c) \<and> active_clause_valid (app c) \<longrightarrow>
         active_clause_valid (app c'))
    \<and> ((\<forall>k. ev \<noteq> ClauseClicked k) \<longrightarrow> activeClause (app c') = activeClause (app c))"
proof (cases ev)
  case (ClauseClicked k)
  with assms have k: "k \<in> set (rendered_clause_numbers (app c))"
    and c': "app c' = toggleClause k (app c)"
    by (auto split: if_splits)
  from k obtain a where "analysis (app c) = Some a" "k \<in> set (map clause_number (clauses a))"
    by (auto simp: rendered_clause_numbers_def renderAnalysis_def
        split: if_splits option.splits)
  with c' have "active_clause_valid (app c')"
    by (simp add: active_clause_valid_def toggleClause_def)
  with ClauseClicked show ?thesis by simp
next
  case SubmitAnalysis
  with assms have "activeClause (app c') = activeClause (app c)"
    by (auto split: prod.splits option.splits dest: analyzeDocument_start_frame)
  with SubmitAnalysis show ?thesis
    using active_clause_valid_cong [of "app c'" "app c"] by auto
next
  case (AnalysisSettles i outcome)
  with assms have "activeClause (app c') = activeClause (app c)"
    by (auto simp: analyzeDocument_resume_frame split: if_splits)
  with AnalysisSettles show ?thesis
    using active_clause_valid_cong [of "app c'" "app c"] by auto
next
  case SubmitQuestion
  with assms have "activeClause (app c') = activeClause (app c)"
    by (auto split: prod.splits option.splits dest: askFollowUpQuestion_start_frame)
  with SubmitQuestion show ?thesis
    using active_clause_valid_cong [of "app c'" "app c"] by auto
next
  case (QuestionSettles i outcome)
  with assms have "activeClause (app c') = activeClause (app c)"
    by (auto simp: askFollowUpQuestion_resume_frame split: if_splits)
  with QuestionSettles show ?thesis
    using active_clause_valid_cong [of "app c'" "app c"] by auto
next
  case (FileChosen chosen)
  with assms have "activeClause (app c') = activeClause (app c)"
    by (auto split: prod.splits option.splits dest: handleFileUpload_start_frame)
  with FileChosen show ?thesis
    using active_clause_valid_cong [of "app c'" "app c"] by auto
next
  case (FileRead i)
  with assms have "activeClause (app c') = activeClause (app c)"
    by (auto simp: handleFileUpload_resume_frame split: if_splits)
  with FileRead show ?thesis
    using active_clause_valid_cong [of "app c'" "app c"] by auto
qed (use assms in \<open>auto simp: active_clause_valid_def split: option.splits\<close>)


theorem active_clause_step_witness:
  "step browser (ClauseClicked 5) lease_page
     = Some (lease_page\<lparr>app := lease_ready\<lparr>activeClause := None\<rparr>\<rparr>)
   \<and> active_clause_valid lease_ready
   \<and> active_clause_valid (lease_ready\<lparr>activeClause := None\<rparr>)
   \<and> step browser (EditCurrentQuestion (js ''Who pays?'')) lease_page
     = Some (lease_page\<lparr>app := lease_ready\<lparr>currentQuestion := js ''Who pays?''\<rparr>\<rparr>)
   \<and> active_clause_valid (lease_ready\<lparr>currentQuestion := js ''Who pays?''\<rparr>)
   \<and> activeClause (lease_ready\<lparr>currentQuestion := js ''Who pays?''\<rparr>) = Some 5"
proof -
  have click: "step browser (ClauseClicked 5) lease_page
      = Some (lease_page\<lparr>app := lease_ready\<lparr>activeClause := None\<rparr>\<rparr>)"
    by (simp add: lease_page_def rendered_clause_numbers_def renderAnalysis_def truthy_def
        lease_ready_def lease_analysis_def toggleClause_def)
  have edit: "step browser (EditCurrentQuestion (js ''Who pays?'')) lease_page
      = Some (lease_page\<lparr>app := lease_ready\<lparr>currentQuestion := js ''Who pays?''\<rparr>\<rparr>)"
    by (simp add: lease_page_def)
  have valid: "active_clause_valid lease_ready"
    by (simp add: active_clause_valid_def lease_ready_def lease_analysis_def)
  have same: "analysis (lease_ready\<lparr>currentQuestion := js ''Who pays?''\<rparr>) = analysis lease_ready"
    "activeClause lease_ready = Some 5"
    by (simp_all add: lease_ready_def)
  from active_clause_step [OF click, of 5] active_clause_step [OF edit, of 5]
    click edit valid same
  show ?thesis by (simp add: lease_page_def)
qed

section \<open>The chat session and the analysis\<close>

text \<open>
  C1. In the reachable configuration in which the lease has been analysed and one
  question answered, choosing a text file clears the analysis and leaves the chat session
  and the transcript in place, while the file is read and after it has been read:
  \<open>handleFileUpload\<close> does not write \<open>chat\<close> or \<open>chatHistory\<close>, which
  \<open>analyzeDocument\<close> clears together with the analysis.
\<close>

theorem file_upload_keeps_chat_session:
  "reachable browser discussed_page
   \<and> analysis (app discussed_page) = Some lease_analysis
   \<and> chat (app discussed_page) = Some (chats_create (userPrompt lease_form) lease_json)
   \<and> map_option (\<lambda>c. (analysis (app c), chat (app c), chatHistory (app c)))
        (run browser [FileChosen (Some notes_txt)] discussed_page)
      = Some (None, Some (chats_create (userPrompt lease_form) lease_json),
              [(User, js ''Who pays?''), (Model, js ''The tenant.'')])
   \<and> map_option (\<lambda>c. (analysis (app c), chat (app c), chatHistory (app c), isLoading (app c)))
        (run browser [FileChosen (Some notes_txt), FileRead 0] discussed_page)
      = Some (None, Some (chats_create (userPrompt lease_form) lease_json),
              [(User, js ''Who pays?''), (Model, js ''The tenant.'')], False)"
  using reachable_discussed_page
  by (simp add: discussed_page_def lease_discussed_def lease_ready_def handleFileUpload_start_def
      handleFileUpload_resume_def read_file_def notes_txt_def Let_def drop_nth_def
      text_plain_not_pdf)

end
